theory Spec2Isabelle
  imports Complex_Main
begin

section \<open>Data model (src/game/types.ts, src/game/physics.ts)\<close>

text \<open>
  A JavaScript \<open>number\<close> is modelled as a \<^typ>\<open>real\<close>. Rounding of a result that
  lies in the normal range of binary64 is not modelled, and the values NaN and the
  infinities do not exist. One effect of binary64 is modelled, in the vector length
  (\<open>times64\<close> below): a square that falls below the normal range is rounded onto the
  subnormal grid, where it can lose all its precision or vanish. Properties that the
  source keeps only away from overflow and underflow carry bounds on the magnitudes
  involved. Optional fields are \<^typ>\<open>'a option\<close>. Record fields carry a short prefix,
  since the source reuses the field names \<open>id\<close>, \<open>position\<close>, \<open>width\<close>, ... in several
  types.
\<close>

record Vec2 =
  xc :: real
  yc :: real

datatype Axis = AxisX | AxisY

record MotionConfig =
  axis :: Axis
  amplitude :: real
  speed :: real
  phase :: "real option"

datatype TriangleOrientation = Up | Down | Left | Right

text \<open>The tag \<open>type\<close> of a bumper; the triangle variant carries its orientation.\<close>

datatype BumperType = Rect | Triangle TriangleOrientation

record Bumper =
  b_id :: string
  b_color :: string
  b_position :: Vec2
  b_width :: real
  b_height :: real
  b_rotation :: "real option"
  b_motion :: "MotionConfig option"
  b_type :: BumperType

record TargetConfig =
  t_position :: Vec2
  t_size :: real
  t_color :: string

record LevelConfig =
  l_id :: string
  l_name :: string
  backgroundColor :: string
  bounceLimit :: real
  ballStart :: Vec2
  target :: TargetConfig
  l_bumpers :: "Bumper list"

record ResolvedBumper =
  r_id :: string
  r_color :: string
  r_center :: Vec2
  r_width :: real
  r_height :: real
  r_rotation :: real
  r_vertices :: "Vec2 list"
  r_type :: BumperType

datatype CollisionKind = Wall | BumperHit

record CollisionEvent =
  c_id :: string
  c_kind :: CollisionKind
  c_normal :: Vec2
  c_point :: Vec2

record BallState =
  position :: Vec2
  velocity :: Vec2

record StepSettings =
  ballRadius :: real
  worldWidth :: real
  worldHeight :: real
  damping :: real
  friction :: real
  maxSpeed :: real

record CollisionAccumulator =
  events :: "CollisionEvent list"
  ids :: "string set"

record StepResult =
  state :: BallState
  collisions :: "CollisionEvent list"

record Edge =
  edge_from :: Vec2
  edge_to :: Vec2
  edge_normal :: Vec2

section \<open>Vector helpers\<close>

definition toRadians :: "real \<Rightarrow> real" where
  "toRadians degrees = (degrees * pi) / 180"

definition add :: "Vec2 \<Rightarrow> Vec2 \<Rightarrow> Vec2" where
  "add a b = \<lparr>xc = xc a + xc b, yc = yc a + yc b\<rparr>"

definition sub :: "Vec2 \<Rightarrow> Vec2 \<Rightarrow> Vec2" where
  "sub a b = \<lparr>xc = xc a - xc b, yc = yc a - yc b\<rparr>"

definition scale :: "Vec2 \<Rightarrow> real \<Rightarrow> Vec2" where
  "scale a s = \<lparr>xc = xc a * s, yc = yc a * s\<rparr>"

definition dot :: "Vec2 \<Rightarrow> Vec2 \<Rightarrow> real" where
  "dot a b = xc a * xc b + yc a * yc b"

text \<open>
  The product \<open>a * b\<close> of two doubles. Doubles below \<open>2^-1022\<close> in magnitude are the
  multiples of \<open>2^-1074\<close>; a product that lands there is rounded to the nearest
  multiple, a tie going to the even one (gradual underflow). A product in the normal
  range is taken as exact.
\<close>

definition roundTiesEven :: "real \<Rightarrow> int" where
  "roundTiesEven r =
     (let f = \<lfloor>r\<rfloor>; d = r - of_int f
      in if d < 1 / 2 then f
         else if 1 / 2 < d then f + 1
         else if even f then f else f + 1)"

definition times64 :: "real \<Rightarrow> real \<Rightarrow> real" where
  "times64 a b =
     (let p = a * b
      in if \<bar>p\<bar> < 1 / 2 ^ 1022 then of_int (roundTiesEven (p * 2 ^ 1074)) / 2 ^ 1074
         else p)"

text \<open>\<open>length\<close>: \<open>Math.sqrt(a.x * a.x + a.y * a.y)\<close>, the two squares as doubles.\<close>

definition length_vec :: "Vec2 \<Rightarrow> real" where
  "length_vec a = sqrt (times64 (xc a) (xc a) + times64 (yc a) (yc a))"

definition normalize_vec :: "Vec2 \<Rightarrow> Vec2" where
  "normalize_vec a =
     (let len = length_vec a
      in if len = 0 then \<lparr>xc = 0, yc = 0\<rparr>
         else \<lparr>xc = xc a / len, yc = yc a / len\<rparr>)"

definition clamp :: "real \<Rightarrow> real \<Rightarrow> real \<Rightarrow> real" where
  "clamp v lo hi = max lo (min hi v)"

definition rotatePoint :: "Vec2 \<Rightarrow> real \<Rightarrow> Vec2" where
  "rotatePoint point radians =
     (let c = cos radians; s = sin radians
      in \<lparr>xc = xc point * c - yc point * s, yc = xc point * s + yc point * c\<rparr>)"

section \<open>Geometry resolver\<close>

definition applyMotion :: "Vec2 \<Rightarrow> Bumper \<Rightarrow> real \<Rightarrow> Vec2" where
  "applyMotion pos bumper time =
     (case b_motion bumper of
        None \<Rightarrow> pos
      | Some m \<Rightarrow>
          (let ph = (case phase m of None \<Rightarrow> 0 | Some p \<Rightarrow> p);
               offset = amplitude m * sin (time * speed m + ph)
           in if axis m = AxisX
              then \<lparr>xc = xc pos + offset, yc = yc pos\<rparr>
              else \<lparr>xc = xc pos, yc = yc pos + offset\<rparr>))"

definition rectVertices :: "Bumper \<Rightarrow> Vec2 list" where
  "rectVertices bumper =
     (let halfW = b_width bumper / 2; halfH = b_height bumper / 2
      in [\<lparr>xc = - halfW, yc = - halfH\<rparr>,
          \<lparr>xc = halfW, yc = - halfH\<rparr>,
          \<lparr>xc = halfW, yc = halfH\<rparr>,
          \<lparr>xc = - halfW, yc = halfH\<rparr>])"

text \<open>
  \<open>triangleVertices\<close> reads the orientation of a bumper cast to \<open>TriangleBumper\<close>; the
  orientation is passed here as the argument the \<open>switch\<close> inspects.
\<close>

definition triangleVertices :: "Bumper \<Rightarrow> TriangleOrientation \<Rightarrow> Vec2 list" where
  "triangleVertices bumper orientation =
     (let halfW = b_width bumper / 2; halfH = b_height bumper / 2
      in case orientation of
           Up \<Rightarrow> [\<lparr>xc = 0, yc = - halfH\<rparr>,
                  \<lparr>xc = halfW, yc = halfH\<rparr>,
                  \<lparr>xc = - halfW, yc = halfH\<rparr>]
         | Down \<Rightarrow> [\<lparr>xc = 0, yc = halfH\<rparr>,
                    \<lparr>xc = - halfW, yc = - halfH\<rparr>,
                    \<lparr>xc = halfW, yc = - halfH\<rparr>]
         | Left \<Rightarrow> [\<lparr>xc = - halfW, yc = 0\<rparr>,
                    \<lparr>xc = halfW, yc = - halfH\<rparr>,
                    \<lparr>xc = halfW, yc = halfH\<rparr>]
         | Right \<Rightarrow> [\<lparr>xc = halfW, yc = 0\<rparr>,
                     \<lparr>xc = - halfW, yc = - halfH\<rparr>,
                     \<lparr>xc = - halfW, yc = halfH\<rparr>])"

text \<open>The local (unrotated, untranslated) vertices \<open>baseVerts\<close> of \<open>resolveBumper\<close>.\<close>

definition baseVerts :: "Bumper \<Rightarrow> Vec2 list" where
  "baseVerts bumper =
     (case b_type bumper of
        Rect \<Rightarrow> rectVertices bumper
      | Triangle orientation \<Rightarrow> triangleVertices bumper orientation)"

text \<open>
  \<open>rotation ? ... : baseVerts\<close>: a rotation of 0 (or an absent one, defaulted to 0 by
  \<open>??\<close>) is falsy and skips the rotation.
\<close>

definition resolveBumper :: "Bumper \<Rightarrow> real \<Rightarrow> ResolvedBumper" where
  "resolveBumper bumper time =
     (let rotation = (case b_rotation bumper of None \<Rightarrow> 0 | Some r \<Rightarrow> r);
          rotated = (if rotation \<noteq> 0
                     then map (\<lambda>point. rotatePoint point (toRadians rotation)) (baseVerts bumper)
                     else baseVerts bumper);
          center = applyMotion (b_position bumper) bumper time;
          vertices = map (\<lambda>point. add point center) rotated
      in \<lparr>r_id = b_id bumper, r_color = b_color bumper, r_center = center,
          r_width = b_width bumper, r_height = b_height bumper,
          r_rotation = rotation, r_vertices = vertices, r_type = b_type bumper\<rparr>)"

definition resolveBumpers :: "LevelConfig \<Rightarrow> real \<Rightarrow> ResolvedBumper list" where
  "resolveBumpers level time = map (\<lambda>bumper. resolveBumper bumper time) (l_bumpers level)"

text \<open>
  The loop of \<open>buildEdges\<close> runs \<open>i\<close> over \<open>0 ..< vertices.length\<close>; both reads are in
  range, since \<open>(i + 1) % vertices.length\<close> is below the length.
\<close>

definition buildEdges :: "Vec2 list \<Rightarrow> Edge list" where
  "buildEdges vertices =
     map (\<lambda>i. let frm = vertices ! i;
                   t = vertices ! ((i + 1) mod length vertices);
                   edgeDir = sub t frm;
                   n = normalize_vec \<lparr>xc = yc edgeDir, yc = - xc edgeDir\<rparr>
               in \<lparr>edge_from = frm, edge_to = t, edge_normal = n\<rparr>)
         [0 ..< length vertices]"

section \<open>Collision detection and response\<close>

text \<open>The denominator \<open>segLenSq\<close> of the projection in \<open>closestPointOnSegment\<close>.\<close>

definition segLenSq :: "Edge \<Rightarrow> real" where
  "segLenSq edge =
     (let seg = sub (edge_to edge) (edge_from edge) in max (dot seg seg) (1 / 10000))"

definition closestPointOnSegment :: "Vec2 \<Rightarrow> Edge \<Rightarrow> Vec2" where
  "closestPointOnSegment point edge =
     (let seg = sub (edge_to edge) (edge_from edge);
          t = clamp (dot (sub point (edge_from edge)) seg / segLenSq edge) 0 1
      in add (edge_from edge) (scale seg t))"

definition reflectVelocity :: "Vec2 \<Rightarrow> Vec2 \<Rightarrow> Vec2" where
  "reflectVelocity v n = (let dotProduct = dot v n in sub v (scale n (2 * dotProduct)))"

definition appendCollision :: "CollisionAccumulator \<Rightarrow> CollisionEvent \<Rightarrow> CollisionAccumulator" where
  "appendCollision accumulator event =
     (if c_id event \<in> ids accumulator then accumulator
      else accumulator\<lparr>events := events accumulator @ [event],
                       ids := insert (c_id event) (ids accumulator)\<rparr>)"

text \<open>
  \<open>resolveWallCollisions\<close> writes into the state it is given. It is modelled as
  two state transformers run in sequence: the x pair of walls (first \<open>if\<close>/\<open>else if\<close>)
  and the y pair (second one). \<open>position\<close> and \<open>velocity\<close> of the source alias the
  objects inside \<open>state\<close>, so the y pair reads the x coordinate as the x pair left it.
\<close>

definition resolveWallCollisions_x ::
  "BallState \<Rightarrow> StepSettings \<Rightarrow> CollisionAccumulator \<Rightarrow> BallState \<times> CollisionAccumulator" where
  "resolveWallCollisions_x st settings accumulator =
     (if xc (position st) - ballRadius settings < 0 \<and> xc (velocity st) < 0 then
        (st\<lparr>position := (position st)\<lparr>xc := ballRadius settings\<rparr>,
            velocity := (velocity st)\<lparr>xc := \<bar>xc (velocity st)\<bar> * damping settings\<rparr>\<rparr>,
         appendCollision accumulator
           \<lparr>c_id = ''wall-left'', c_kind = Wall, c_normal = \<lparr>xc = 1, yc = 0\<rparr>,
            c_point = \<lparr>xc = 0, yc = yc (position st)\<rparr>\<rparr>)
      else if xc (position st) + ballRadius settings > worldWidth settings \<and> xc (velocity st) > 0 then
        (st\<lparr>position := (position st)\<lparr>xc := worldWidth settings - ballRadius settings\<rparr>,
            velocity := (velocity st)\<lparr>xc := - \<bar>xc (velocity st)\<bar> * damping settings\<rparr>\<rparr>,
         appendCollision accumulator
           \<lparr>c_id = ''wall-right'', c_kind = Wall, c_normal = \<lparr>xc = - 1, yc = 0\<rparr>,
            c_point = \<lparr>xc = worldWidth settings, yc = yc (position st)\<rparr>\<rparr>)
      else (st, accumulator))"

definition resolveWallCollisions_y ::
  "BallState \<Rightarrow> StepSettings \<Rightarrow> CollisionAccumulator \<Rightarrow> BallState \<times> CollisionAccumulator" where
  "resolveWallCollisions_y st settings accumulator =
     (if yc (position st) - ballRadius settings < 0 \<and> yc (velocity st) < 0 then
        (st\<lparr>position := (position st)\<lparr>yc := ballRadius settings\<rparr>,
            velocity := (velocity st)\<lparr>yc := \<bar>yc (velocity st)\<bar> * damping settings\<rparr>\<rparr>,
         appendCollision accumulator
           \<lparr>c_id = ''wall-top'', c_kind = Wall, c_normal = \<lparr>xc = 0, yc = 1\<rparr>,
            c_point = \<lparr>xc = xc (position st), yc = 0\<rparr>\<rparr>)
      else if yc (position st) + ballRadius settings > worldHeight settings \<and> yc (velocity st) > 0 then
        (st\<lparr>position := (position st)\<lparr>yc := worldHeight settings - ballRadius settings\<rparr>,
            velocity := (velocity st)\<lparr>yc := - \<bar>yc (velocity st)\<bar> * damping settings\<rparr>\<rparr>,
         appendCollision accumulator
           \<lparr>c_id = ''wall-bottom'', c_kind = Wall, c_normal = \<lparr>xc = 0, yc = - 1\<rparr>,
            c_point = \<lparr>xc = xc (position st), yc = worldHeight settings\<rparr>\<rparr>)
      else (st, accumulator))"

definition resolveWallCollisions ::
  "BallState \<Rightarrow> StepSettings \<Rightarrow> CollisionAccumulator \<Rightarrow> BallState \<times> CollisionAccumulator" where
  "resolveWallCollisions st settings accumulator =
     (case resolveWallCollisions_x st settings accumulator of
        (st1, acc1) \<Rightarrow> resolveWallCollisions_y st1 settings acc1)"

text \<open>
  The body of the edge loop of \<open>resolveBumperCollision\<close>: \<open>None\<close> is \<open>continue\<close> (or
  falling through to the next edge), \<open>Some (normal, dst, nearest)\<close> is the hit that
  the branch ending in \<open>break\<close> resolves. The state is written only in that branch, so
  every edge is tested against the state the function was called with.
\<close>

definition edgeCheck :: "BallState \<Rightarrow> StepSettings \<Rightarrow> Edge \<Rightarrow> (Vec2 \<times> real \<times> Vec2) option" where
  "edgeCheck st settings edge =
     (let nearest = closestPointOnSegment (position st) edge;
          diff = sub (position st) nearest;
          dst = length_vec diff
      in if dst = 0 then None
         else (let n = normalize_vec diff
               in if dst < ballRadius settings \<and> dot (velocity st) n < 0
                  then Some (n, dst, nearest) else None))"

fun edgeLoop :: "BallState \<Rightarrow> StepSettings \<Rightarrow> Edge list \<Rightarrow> (Vec2 \<times> real \<times> Vec2) option" where
  "edgeLoop st settings [] = None"
| "edgeLoop st settings (edge # rest) =
     (case edgeCheck st settings edge of
        Some hit \<Rightarrow> Some hit
      | None \<Rightarrow> edgeLoop st settings rest)"

text \<open>The body of the corner loop, which runs when no edge collided.\<close>

definition vertexCheck :: "BallState \<Rightarrow> StepSettings \<Rightarrow> Vec2 \<Rightarrow> (Vec2 \<times> real \<times> Vec2) option" where
  "vertexCheck st settings vertex =
     (let diff = sub (position st) vertex;
          dst = length_vec diff
      in if dst < ballRadius settings \<and> dot (velocity st) diff < 0
         then Some (normalize_vec diff, dst, vertex) else None)"

fun cornerLoop :: "BallState \<Rightarrow> StepSettings \<Rightarrow> Vec2 list \<Rightarrow> (Vec2 \<times> real \<times> Vec2) option" where
  "cornerLoop st settings [] = None"
| "cornerLoop st settings (vertex # rest) =
     (case vertexCheck st settings vertex of
        Some hit \<Rightarrow> Some hit
      | None \<Rightarrow> cornerLoop st settings rest)"

text \<open>
  The response both loops apply at a hit: push the ball out by the penetration,
  reflect and damp the velocity, record the event.
\<close>

definition bounce ::
  "ResolvedBumper \<Rightarrow> BallState \<Rightarrow> CollisionAccumulator \<Rightarrow> StepSettings \<Rightarrow> Vec2 \<times> real \<times> Vec2
     \<Rightarrow> BallState \<times> CollisionAccumulator" where
  "bounce bumper st accumulator settings hit =
     (case hit of (n, dst, point) \<Rightarrow>
        (let penetration = ballRadius settings - dst
         in (st\<lparr>position := add (position st) (scale n penetration),
                velocity := scale (reflectVelocity (velocity st) n) (damping settings)\<rparr>,
             appendCollision accumulator
               \<lparr>c_id = r_id bumper, c_kind = BumperHit, c_normal = n, c_point = point\<rparr>)))"

definition resolveBumperCollision ::
  "ResolvedBumper \<Rightarrow> BallState \<Rightarrow> CollisionAccumulator \<Rightarrow> StepSettings
     \<Rightarrow> BallState \<times> CollisionAccumulator" where
  "resolveBumperCollision bumper st accumulator settings =
     (let edges = buildEdges (r_vertices bumper)
      in case edgeLoop st settings edges of
           Some hit \<Rightarrow> bounce bumper st accumulator settings hit
         | None \<Rightarrow>
             (case cornerLoop st settings (r_vertices bumper) of
                Some hit \<Rightarrow> bounce bumper st accumulator settings hit
              | None \<Rightarrow> (st, accumulator)))"

section \<open>Integrator\<close>

text \<open>
  \<open>stepBall\<close>, in the order of the source: the fresh \<open>nextState\<close> with the predicted
  position and the velocity scaled by the friction multiplier (\<open>stepBall_friction\<close>),
  the speed cap (\<open>stepBall_cap\<close>), the walls, then the bumpers in list order. When
  \<open>maxSpeed\<close> is negative and the speed is 0 the source divides by zero; the claims
  below that concern the cap assume \<open>maxSpeed > 0\<close>, where the divisor is positive.
\<close>

definition stepBall_friction :: "BallState \<Rightarrow> real \<Rightarrow> StepSettings \<Rightarrow> BallState" where
  "stepBall_friction st dt settings =
     (let nextState = \<lparr>position = add (position st) (scale (velocity st) dt),
                       velocity = velocity st\<rparr>
      in nextState\<lparr>velocity := scale (velocity nextState) (1 - friction settings * dt)\<rparr>)"

definition stepBall_cap :: "BallState \<Rightarrow> StepSettings \<Rightarrow> BallState" where
  "stepBall_cap nextState settings =
     (let spd = length_vec (velocity nextState)
      in if spd > maxSpeed settings
         then nextState\<lparr>velocity := scale (velocity nextState) (maxSpeed settings / spd)\<rparr>
         else nextState)"

fun bumperLoop ::
  "ResolvedBumper list \<Rightarrow> BallState \<Rightarrow> CollisionAccumulator \<Rightarrow> StepSettings
     \<Rightarrow> BallState \<times> CollisionAccumulator" where
  "bumperLoop [] st accumulator settings = (st, accumulator)"
| "bumperLoop (bumper # rest) st accumulator settings =
     (case resolveBumperCollision bumper st accumulator settings of
        (st1, acc1) \<Rightarrow> bumperLoop rest st1 acc1 settings)"

definition stepBall :: "BallState \<Rightarrow> ResolvedBumper list \<Rightarrow> real \<Rightarrow> StepSettings \<Rightarrow> StepResult" where
  "stepBall st bumpers dt settings =
     (let nextState = stepBall_cap (stepBall_friction st dt settings) settings;
          accumulator = \<lparr>events = [], ids = {}\<rparr>
      in case resolveWallCollisions nextState settings accumulator of
           (st1, acc1) \<Rightarrow>
             (case bumperLoop bumpers st1 acc1 settings of
                (st2, acc2) \<Rightarrow> \<lparr>state = st2, collisions = events acc2\<rparr>))"

section \<open>Trajectory simulator\<close>

text \<open>
  The \<open>for\<close> loop of \<open>simulateTrajectory\<close>, by recursion on the number of iterations
  left (\<open>steps - i\<close>). The step budget is a natural number; \<open>maxCollisions\<close> is any
  number. Returning \<open>points\<close> in the second equation is the \<open>break\<close>.
\<close>

fun simulateLoop ::
  "LevelConfig \<Rightarrow> real \<Rightarrow> real \<Rightarrow> StepSettings \<Rightarrow> nat \<Rightarrow> BallState \<Rightarrow> real \<Rightarrow> nat \<Rightarrow> Vec2 list
     \<Rightarrow> Vec2 list" where
  "simulateLoop level dt maxCollisions settings 0 st time count points = points"
| "simulateLoop level dt maxCollisions settings (Suc n) st time count points =
     (let bs = resolveBumpers level time;
          result = stepBall st bs dt settings;
          st1 = state result;
          points1 = points @ [position st1];
          time1 = time + dt;
          count1 = (if length (collisions result) > 0
                    then count + length (collisions result) else count)
      in if real count1 \<ge> maxCollisions then points1
         else simulateLoop level dt maxCollisions settings n st1 time1 count1 points1)"

definition simulateTrajectory ::
  "BallState \<Rightarrow> LevelConfig \<Rightarrow> real \<Rightarrow> real \<Rightarrow> nat \<Rightarrow> real \<Rightarrow> StepSettings \<Rightarrow> Vec2 list" where
  "simulateTrajectory start level initialTime dt steps maxCollisions settings =
     (let st = \<lparr>position = position start, velocity = velocity start\<rparr>
      in simulateLoop level dt maxCollisions settings steps st initialTime 0 [])"

text \<open>The settings the game runs with (\<open>getPhysicsSettings\<close> in the game component).\<close>

definition getPhysicsSettings :: StepSettings where
  "getPhysicsSettings =
     \<lparr>ballRadius = 14, worldWidth = 360, worldHeight = 640,
      damping = 88 / 100, friction = 18 / 100, maxSpeed = 900\<rparr>"

section \<open>The step function over a store of objects\<close>

text \<open>
  The functional model above passes ball states by value. To state that \<open>stepBall\<close>
  leaves its argument alone, the objects are placed in a store: a \<open>Vec2\<close> object and
  a \<open>BallState\<close> object each live at an address (an index into the list of objects of
  their kind), and a \<open>BallState\<close> object holds the addresses of its position and its
  velocity. An object literal and each call of \<open>add\<close>, \<open>scale\<close> whose result is stored
  allocate a new object; \<open>state.position.x = ...\<close> overwrites a coordinate of an
  existing object in place; \<open>state.position = ...\<close> redirects a field. Bumpers and
  events are only read and stay values.
\<close>

type_synonym addr = nat

record BallObject =
  positionRef :: addr
  velocityRef :: addr

record Store =
  vecs :: "Vec2 list"
  balls :: "BallObject list"

definition allocVec :: "Store \<Rightarrow> Vec2 \<Rightarrow> Store \<times> addr" where
  "allocVec h v = (h\<lparr>vecs := vecs h @ [v]\<rparr>, length (vecs h))"

definition allocBall :: "Store \<Rightarrow> BallObject \<Rightarrow> Store \<times> addr" where
  "allocBall h obj = (h\<lparr>balls := balls h @ [obj]\<rparr>, length (balls h))"

definition readBall :: "Store \<Rightarrow> addr \<Rightarrow> BallState" where
  "readBall h b =
     \<lparr>position = vecs h ! positionRef (balls h ! b),
      velocity = vecs h ! velocityRef (balls h ! b)\<rparr>"

definition writeX :: "Store \<Rightarrow> addr \<Rightarrow> real \<Rightarrow> Store" where
  "writeX h a val = h\<lparr>vecs := (vecs h)[a := (vecs h ! a)\<lparr>xc := val\<rparr>]\<rparr>"

definition writeY :: "Store \<Rightarrow> addr \<Rightarrow> real \<Rightarrow> Store" where
  "writeY h a val = h\<lparr>vecs := (vecs h)[a := (vecs h ! a)\<lparr>yc := val\<rparr>]\<rparr>"

definition setPosition :: "Store \<Rightarrow> addr \<Rightarrow> addr \<Rightarrow> Store" where
  "setPosition h b a = h\<lparr>balls := (balls h)[b := (balls h ! b)\<lparr>positionRef := a\<rparr>]\<rparr>"

definition setVelocity :: "Store \<Rightarrow> addr \<Rightarrow> addr \<Rightarrow> Store" where
  "setVelocity h b a = h\<lparr>balls := (balls h)[b := (balls h ! b)\<lparr>velocityRef := a\<rparr>]\<rparr>"

text \<open>
  The store versions of the functions follow the source statement by statement and
  take the address of the \<open>BallState\<close> object they work on. Reads go through the
  store as it is at that point of the execution.
\<close>

definition resolveWallCollisions_x_store ::
  "Store \<Rightarrow> addr \<Rightarrow> StepSettings \<Rightarrow> CollisionAccumulator \<Rightarrow> Store \<times> CollisionAccumulator" where
  "resolveWallCollisions_x_store h b settings accumulator =
     (let pos = positionRef (balls h ! b); vel = velocityRef (balls h ! b)
      in if xc (vecs h ! pos) - ballRadius settings < 0 \<and> xc (vecs h ! vel) < 0 then
           (let h1 = writeX h (positionRef (balls h ! b)) (ballRadius settings);
                h2 = writeX h1 (velocityRef (balls h1 ! b))
                       (\<bar>xc (vecs h1 ! velocityRef (balls h1 ! b))\<bar> * damping settings)
            in (h2, appendCollision accumulator
                 \<lparr>c_id = ''wall-left'', c_kind = Wall, c_normal = \<lparr>xc = 1, yc = 0\<rparr>,
                  c_point = \<lparr>xc = 0, yc = yc (vecs h2 ! pos)\<rparr>\<rparr>))
         else if xc (vecs h ! pos) + ballRadius settings > worldWidth settings \<and> xc (vecs h ! vel) > 0 then
           (let h1 = writeX h (positionRef (balls h ! b)) (worldWidth settings - ballRadius settings);
                h2 = writeX h1 (velocityRef (balls h1 ! b))
                       (- \<bar>xc (vecs h1 ! velocityRef (balls h1 ! b))\<bar> * damping settings)
            in (h2, appendCollision accumulator
                 \<lparr>c_id = ''wall-right'', c_kind = Wall, c_normal = \<lparr>xc = - 1, yc = 0\<rparr>,
                  c_point = \<lparr>xc = worldWidth settings, yc = yc (vecs h2 ! pos)\<rparr>\<rparr>))
         else (h, accumulator))"

definition resolveWallCollisions_y_store ::
  "Store \<Rightarrow> addr \<Rightarrow> StepSettings \<Rightarrow> CollisionAccumulator \<Rightarrow> Store \<times> CollisionAccumulator" where
  "resolveWallCollisions_y_store h b settings accumulator =
     (let pos = positionRef (balls h ! b); vel = velocityRef (balls h ! b)
      in if yc (vecs h ! pos) - ballRadius settings < 0 \<and> yc (vecs h ! vel) < 0 then
           (let h1 = writeY h (positionRef (balls h ! b)) (ballRadius settings);
                h2 = writeY h1 (velocityRef (balls h1 ! b))
                       (\<bar>yc (vecs h1 ! velocityRef (balls h1 ! b))\<bar> * damping settings)
            in (h2, appendCollision accumulator
                 \<lparr>c_id = ''wall-top'', c_kind = Wall, c_normal = \<lparr>xc = 0, yc = 1\<rparr>,
                  c_point = \<lparr>xc = xc (vecs h2 ! pos), yc = 0\<rparr>\<rparr>))
         else if yc (vecs h ! pos) + ballRadius settings > worldHeight settings \<and> yc (vecs h ! vel) > 0 then
           (let h1 = writeY h (positionRef (balls h ! b)) (worldHeight settings - ballRadius settings);
                h2 = writeY h1 (velocityRef (balls h1 ! b))
                       (- \<bar>yc (vecs h1 ! velocityRef (balls h1 ! b))\<bar> * damping settings)
            in (h2, appendCollision accumulator
                 \<lparr>c_id = ''wall-bottom'', c_kind = Wall, c_normal = \<lparr>xc = 0, yc = - 1\<rparr>,
                  c_point = \<lparr>xc = xc (vecs h2 ! pos), yc = worldHeight settings\<rparr>\<rparr>))
         else (h, accumulator))"

definition resolveWallCollisions_store ::
  "Store \<Rightarrow> addr \<Rightarrow> StepSettings \<Rightarrow> CollisionAccumulator \<Rightarrow> Store \<times> CollisionAccumulator" where
  "resolveWallCollisions_store h b settings accumulator =
     (case resolveWallCollisions_x_store h b settings accumulator of
        (h1, acc1) \<Rightarrow> resolveWallCollisions_y_store h1 b settings acc1)"

definition bounce_store ::
  "ResolvedBumper \<Rightarrow> Store \<Rightarrow> addr \<Rightarrow> CollisionAccumulator \<Rightarrow> StepSettings \<Rightarrow> Vec2 \<times> real \<times> Vec2
     \<Rightarrow> Store \<times> CollisionAccumulator" where
  "bounce_store bumper h b accumulator settings hit =
     (case hit of (n, dst, point) \<Rightarrow>
        (let penetration = ballRadius settings - dst;
             (h1, p) = allocVec h (add (position (readBall h b)) (scale n penetration));
             h2 = setPosition h1 b p;
             (h3, v) = allocVec h2
                         (scale (reflectVelocity (velocity (readBall h2 b)) n) (damping settings));
             h4 = setVelocity h3 b v
         in (h4, appendCollision accumulator
               \<lparr>c_id = r_id bumper, c_kind = BumperHit, c_normal = n, c_point = point\<rparr>)))"

definition resolveBumperCollision_store ::
  "ResolvedBumper \<Rightarrow> Store \<Rightarrow> addr \<Rightarrow> CollisionAccumulator \<Rightarrow> StepSettings
     \<Rightarrow> Store \<times> CollisionAccumulator" where
  "resolveBumperCollision_store bumper h b accumulator settings =
     (let edges = buildEdges (r_vertices bumper)
      in case edgeLoop (readBall h b) settings edges of
           Some hit \<Rightarrow> bounce_store bumper h b accumulator settings hit
         | None \<Rightarrow>
             (case cornerLoop (readBall h b) settings (r_vertices bumper) of
                Some hit \<Rightarrow> bounce_store bumper h b accumulator settings hit
              | None \<Rightarrow> (h, accumulator)))"

fun bumperLoop_store ::
  "ResolvedBumper list \<Rightarrow> Store \<Rightarrow> addr \<Rightarrow> CollisionAccumulator \<Rightarrow> StepSettings
     \<Rightarrow> Store \<times> CollisionAccumulator" where
  "bumperLoop_store [] h b accumulator settings = (h, accumulator)"
| "bumperLoop_store (bumper # rest) h b accumulator settings =
     (case resolveBumperCollision_store bumper h b accumulator settings of
        (h1, acc1) \<Rightarrow> bumperLoop_store rest h1 b acc1 settings)"

definition stepBall_cap_store :: "Store \<Rightarrow> addr \<Rightarrow> StepSettings \<Rightarrow> Store" where
  "stepBall_cap_store h nextState settings =
     (let spd = length_vec (velocity (readBall h nextState))
      in if spd > maxSpeed settings
         then (let (h1, v) = allocVec h
                               (scale (velocity (readBall h nextState)) (maxSpeed settings / spd))
               in setVelocity h1 nextState v)
         else h)"

text \<open>
  The first statements of \<open>stepBall\<close>: the position object is the result of \<open>add\<close>,
  the velocity object the copy \<open>{ ...state.velocity }\<close>, \<open>nextState\<close> a new object
  holding both; then \<open>nextState.velocity\<close> is redirected to the result of \<open>scale\<close>.
\<close>

definition stepBall_friction_store :: "Store \<Rightarrow> addr \<Rightarrow> real \<Rightarrow> StepSettings \<Rightarrow> Store \<times> addr" where
  "stepBall_friction_store h st dt settings =
     (let (h1, p) = allocVec h (add (position (readBall h st)) (scale (velocity (readBall h st)) dt));
          (h2, v) = allocVec h1 (velocity (readBall h1 st));
          (h3, nextState) = allocBall h2 \<lparr>positionRef = p, velocityRef = v\<rparr>;
          (h4, v1) = allocVec h3
                       (scale (velocity (readBall h3 nextState)) (1 - friction settings * dt))
      in (setVelocity h4 nextState v1, nextState))"

definition stepBall_store ::
  "Store \<Rightarrow> addr \<Rightarrow> ResolvedBumper list \<Rightarrow> real \<Rightarrow> StepSettings
     \<Rightarrow> Store \<times> addr \<times> CollisionEvent list" where
  "stepBall_store h st bumpers dt settings =
     (case stepBall_friction_store h st dt settings of
        (h1, nextState) \<Rightarrow>
          (let h2 = stepBall_cap_store h1 nextState settings;
               accumulator = \<lparr>events = [], ids = {}\<rparr>
           in case resolveWallCollisions_store h2 nextState settings accumulator of
                (h3, acc1) \<Rightarrow>
                  (case bumperLoop_store bumpers h3 nextState acc1 settings of
                     (h4, acc2) \<Rightarrow> (h4, nextState, events acc2))))"

text \<open>A store holding the ball of the left-wall scenario at address 0.\<close>

definition exampleStore :: Store where
  "exampleStore =
     \<lparr>vecs = [\<lparr>xc = 0, yc = 0\<rparr>, \<lparr>xc = - 100, yc = 0\<rparr>],
      balls = [\<lparr>positionRef = 0, velocityRef = 1\<rparr>]\<rparr>"

text \<open>
  A ball address is valid when the object and the two objects it points to exist.
  A store extends another when every object of the old store is still there,
  unchanged, at its address. A ball is fresh with respect to an old store when it
  and the two distinct objects it points to were allocated after it.
\<close>

definition validBall :: "Store \<Rightarrow> addr \<Rightarrow> bool" where
  "validBall h b \<longleftrightarrow>
     b < length (balls h) \<and> positionRef (balls h ! b) < length (vecs h)
     \<and> velocityRef (balls h ! b) < length (vecs h)"

definition extends :: "Store \<Rightarrow> Store \<Rightarrow> bool" where
  "extends h0 h \<longleftrightarrow>
     take (length (vecs h0)) (vecs h) = vecs h0 \<and> take (length (balls h0)) (balls h) = balls h0"

definition freshBall :: "Store \<Rightarrow> Store \<Rightarrow> addr \<Rightarrow> bool" where
  "freshBall h0 h b \<longleftrightarrow>
     length (balls h0) \<le> b \<and> b < length (balls h)
     \<and> length (vecs h0) \<le> positionRef (balls h ! b) \<and> positionRef (balls h ! b) < length (vecs h)
     \<and> length (vecs h0) \<le> velocityRef (balls h ! b) \<and> velocityRef (balls h ! b) < length (vecs h)
     \<and> positionRef (balls h ! b) \<noteq> velocityRef (balls h ! b)"

section \<open>Example inputs\<close>

text \<open>A level without bumpers, and a ball in the middle of the arena moving right.\<close>

definition emptyLevel :: LevelConfig where
  "emptyLevel =
     \<lparr>l_id = ''level-0'', l_name = ''Empty'', backgroundColor = ''#000000'',
      bounceLimit = 5, ballStart = \<lparr>xc = 100, yc = 100\<rparr>,
      target = \<lparr>t_position = \<lparr>xc = 280, yc = 120\<rparr>, t_size = 32, t_color = ''#FFFFFF''\<rparr>,
      l_bumpers = []\<rparr>"

definition midBall :: BallState where
  "midBall = \<lparr>position = \<lparr>xc = 100, yc = 100\<rparr>, velocity = \<lparr>xc = 10, yc = 0\<rparr>\<rparr>"

definition leftBall :: BallState where
  "leftBall = \<lparr>position = \<lparr>xc = 0, yc = 0\<rparr>, velocity = \<lparr>xc = - 100, yc = 0\<rparr>\<rparr>"

text \<open>A ball touching the left wall from inside, moving left.\<close>

definition edgeBall :: BallState where
  "edgeBall = \<lparr>position = \<lparr>xc = 14, yc = 320\<rparr>, velocity = \<lparr>xc = - 100, yc = 0\<rparr>\<rparr>"











section \<open>Predicates and drivers used to state the properties\<close>

text \<open>The ball center lies in the arena shrunk by the ball radius.\<close>

definition inArena :: "StepSettings \<Rightarrow> Vec2 \<Rightarrow> bool" where
  "inArena settings p \<longleftrightarrow>
     ballRadius settings \<le> xc p \<and> xc p \<le> worldWidth settings - ballRadius settings \<and>
     ballRadius settings \<le> yc p \<and> yc p \<le> worldHeight settings - ballRadius settings"

text \<open>
  A sequence of \<open>stepBall\<close> calls without obstacles, one per time step of the list,
  each fed the state the previous call returned (as both callers do:
  \<open>state = result.state\<close>, \<open>ballRef.current = result.state\<close>).
\<close>

fun stepMany :: "BallState \<Rightarrow> real list \<Rightarrow> StepSettings \<Rightarrow> BallState" where
  "stepMany st [] settings = st"
| "stepMany st (dt # dts) settings = stepMany (state (stepBall st [] dt settings)) dts settings"

text \<open>
  The magnitude of a vector in exact arithmetic, and the numbers whose square a
  double holds without underflow: zero, and those of magnitude at least \<open>10^-150\<close>.
\<close>

definition magnitude :: "Vec2 \<Rightarrow> real" where
  "magnitude a = sqrt (xc a * xc a + yc a * yc a)"

definition regular :: "real \<Rightarrow> bool" where
  "regular c \<longleftrightarrow> c = 0 \<or> 1 / 10 ^ 150 \<le> \<bar>c\<bar>"


section \<open>Accumulator invariant\<close>

definition accInv :: "CollisionAccumulator \<Rightarrow> bool" where
  "accInv acc \<longleftrightarrow>
     ids acc = set (map c_id (events acc)) \<and> distinct (map c_id (events acc))"

section \<open>Basic facts about the vector helpers\<close>

lemma roundTiesEven_nonneg: "0 \<le> r \<Longrightarrow> 0 \<le> roundTiesEven r"
  by (simp add: roundTiesEven_def Let_def)

lemma times64_exact: "a * b = 0 \<or> 1 / 2 ^ 1022 \<le> \<bar>a * b\<bar> \<Longrightarrow> times64 a b = a * b"
  by (auto simp: times64_def roundTiesEven_def Let_def)

lemma times64_square_nonneg: "0 \<le> times64 a a"
proof -
  have "0 \<le> a * a * 2 ^ 1074" by simp
  then have "0 \<le> roundTiesEven (a * a * 2 ^ 1074)" by (rule roundTiesEven_nonneg)
  then show ?thesis by (simp add: times64_def Let_def)
qed

lemma regular_square:
  assumes "regular c"
  shows "times64 c c = c * c"
proof (cases "c = 0")
  case True
  then show ?thesis by (simp add: times64_exact)
next
  case False
  with assms have c: "1 / 10 ^ 150 \<le> \<bar>c\<bar>" by (simp add: regular_def)
  have "(1 / 10 ^ 150) * (1 / 10 ^ 150) \<le> \<bar>c\<bar> * \<bar>c\<bar>"
    using c by (intro mult_mono) simp_all
  moreover have "(1::real) / 2 ^ 1022 \<le> (1 / 10 ^ 150) * (1 / 10 ^ 150)" by simp
  ultimately have "1 / 2 ^ 1022 \<le> \<bar>c * c\<bar>" by (simp add: abs_mult)
  then show ?thesis by (simp add: times64_exact)
qed

lemma length_vec_regular:
  "regular (xc a) \<Longrightarrow> regular (yc a) \<Longrightarrow> length_vec a = magnitude a"
  by (simp add: length_vec_def magnitude_def regular_square)

lemma regular_zero [simp]: "regular 0"
  by (simp add: regular_def)

lemma length_vec_x_axis: "regular a \<Longrightarrow> length_vec \<lparr>xc = a, yc = 0\<rparr> = \<bar>a\<bar>"
  by (simp add: length_vec_regular magnitude_def)

lemma ballState_copy [simp]: "\<lparr>position = position st, velocity = velocity st\<rparr> = st"
  by (cases st) simp

lemma length_vec_nonneg [simp]: "0 \<le> length_vec a"
  by (simp add: length_vec_def times64_square_nonneg)

lemma cap_position [simp]: "position (stepBall_cap st s) = position st"
  by (simp add: stepBall_cap_def Let_def)

lemma friction_position [simp]:
  "position (stepBall_friction st dt s) = add (position st) (scale (velocity st) dt)"
  by (simp add: stepBall_friction_def Let_def)

lemma friction_velocity [simp]:
  "velocity (stepBall_friction st dt s) = scale (velocity st) (1 - friction s * dt)"
  by (simp add: stepBall_friction_def Let_def)

lemma stepBall_nil:
  "state (stepBall st [] dt s) =
     fst (resolveWallCollisions (stepBall_cap (stepBall_friction st dt s) s) s
            \<lparr>events = [], ids = {}\<rparr>)"
  by (simp add: stepBall_def Let_def split: prod.splits)

lemma step_midBall:
  "stepBall midBall [] (1 / 60) getPhysicsSettings =
     \<lparr>state = \<lparr>position = \<lparr>xc = 100 + 1 / 6, yc = 100\<rparr>, velocity = \<lparr>xc = 997 / 100, yc = 0\<rparr>\<rparr>,
      collisions = []\<rparr>"
  by (simp add: stepBall_def midBall_def getPhysicsSettings_def stepBall_friction_def
      stepBall_cap_def resolveWallCollisions_def resolveWallCollisions_x_def
      resolveWallCollisions_y_def length_vec_x_axis regular_def add_def scale_def Let_def)

lemma resolveBumpers_emptyLevel: "resolveBumpers emptyLevel t = []"
  by (simp add: resolveBumpers_def emptyLevel_def)

section \<open>Trajectory preview: the collision cap\<close>

text \<open>
  Claim C1, as stated, fails. With \<open>maxCollisions = 0\<close> the test
  \<open>collisions >= maxCollisions\<close> after the first step is \<open>0 >= 0\<close>, which holds: the
  loop breaks after the first step although that step produced no collision. With a
  budget of 2 steps in an arena without bumpers the preview has 1 point, not 2.
\<close>

theorem simulateTrajectory_zero_cap_counterexample:
  "collisions (stepBall midBall (resolveBumpers emptyLevel 0) (1 / 60) getPhysicsSettings) = []
   \<and> length (simulateTrajectory midBall emptyLevel 0 (1 / 60) 2 0 getPhysicsSettings) \<noteq> 2"
proof -
  have two: "(2::nat) = Suc (Suc 0)" by simp
  show ?thesis
    unfolding resolveBumpers_emptyLevel step_midBall
    by (simp add: simulateTrajectory_def two Let_def)
qed

text \<open>
  Claim C1, amended: for every call of \<open>simulateTrajectory\<close> with \<open>maxCollisions = 0\<close>
  and \<open>steps = N \<ge> 1\<close>, the break condition, checked after accumulating the step's
  collisions, fires at the end of the first step whatever that step's collisions
  were; the returned list has length 1 and holds the position after the first step.
\<close>

theorem simulateTrajectory_zero_cap:
  assumes "1 \<le> N"
  shows "simulateTrajectory start level t dt N 0 settings =
           [position (state (stepBall start (resolveBumpers level t) dt settings))]
         \<and> length (simulateTrajectory start level t dt N 0 settings) = 1"
proof -
  from assms obtain n where N: "N = Suc n" by (cases N) auto
  show ?thesis by (simp add: N simulateTrajectory_def Let_def)
qed

theorem simulateTrajectory_zero_cap_witness:
  "(1::nat) \<le> 2
   \<and> simulateTrajectory midBall emptyLevel 0 (1 / 60) 2 0 getPhysicsSettings =
       [\<lparr>xc = 100 + 1 / 6, yc = 100\<rparr>]
   \<and> length (simulateTrajectory midBall emptyLevel 0 (1 / 60) 2 0 getPhysicsSettings) = 1"
  using simulateTrajectory_zero_cap [of 2 midBall emptyLevel 0 "1 / 60" getPhysicsSettings]
  by (simp add: resolveBumpers_emptyLevel step_midBall)

section \<open>Geometry resolver\<close>

text \<open>
  Claim C7: for every obstacle and time, each world vertex of \<open>resolveBumper\<close> is the
  local vertex \<open>(x, y)\<close> rotated about the local origin by the static rotation \<open>r\<close>
  (degrees, 0 when absent), that is \<open>(x cos \<theta> - y sin \<theta>, x sin \<theta> + y cos \<theta>)\<close> with
  \<open>\<theta> = r \<pi> / 180\<close>, plus the center; the center is the base position, unchanged when
  there is no motion and otherwise offset along the motion axis by
  \<open>amplitude * sin (time * speed + phase)\<close> with the phase defaulting to 0, so the
  offset is applied after the rotation. The local vertices are the four corners of
  a rectangle and, for a triangle of orientation \<open>up\<close>, the apex \<open>(0, -h/2)\<close> and the
  base corners \<open>(w/2, h/2)\<close>, \<open>(-w/2, h/2)\<close>; the other orientations are listed as the
  source has them.
\<close>

theorem resolveBumper_geometry:
  "r_vertices (resolveBumper b t) =
     map (\<lambda>p.
            \<lparr>xc = xc p * cos ((case b_rotation b of None \<Rightarrow> 0 | Some r \<Rightarrow> r) * pi / 180)
                   - yc p * sin ((case b_rotation b of None \<Rightarrow> 0 | Some r \<Rightarrow> r) * pi / 180)
                   + xc (r_center (resolveBumper b t)),
             yc = xc p * sin ((case b_rotation b of None \<Rightarrow> 0 | Some r \<Rightarrow> r) * pi / 180)
                   + yc p * cos ((case b_rotation b of None \<Rightarrow> 0 | Some r \<Rightarrow> r) * pi / 180)
                   + yc (r_center (resolveBumper b t))\<rparr>)
         (case b_type b of
            Rect \<Rightarrow>
              [\<lparr>xc = - (b_width b / 2), yc = - (b_height b / 2)\<rparr>,
               \<lparr>xc = b_width b / 2, yc = - (b_height b / 2)\<rparr>,
               \<lparr>xc = b_width b / 2, yc = b_height b / 2\<rparr>,
               \<lparr>xc = - (b_width b / 2), yc = b_height b / 2\<rparr>]
          | Triangle Up \<Rightarrow>
              [\<lparr>xc = 0, yc = - (b_height b / 2)\<rparr>,
               \<lparr>xc = b_width b / 2, yc = b_height b / 2\<rparr>,
               \<lparr>xc = - (b_width b / 2), yc = b_height b / 2\<rparr>]
          | Triangle Down \<Rightarrow>
              [\<lparr>xc = 0, yc = b_height b / 2\<rparr>,
               \<lparr>xc = - (b_width b / 2), yc = - (b_height b / 2)\<rparr>,
               \<lparr>xc = b_width b / 2, yc = - (b_height b / 2)\<rparr>]
          | Triangle Left \<Rightarrow>
              [\<lparr>xc = - (b_width b / 2), yc = 0\<rparr>,
               \<lparr>xc = b_width b / 2, yc = - (b_height b / 2)\<rparr>,
               \<lparr>xc = b_width b / 2, yc = b_height b / 2\<rparr>]
          | Triangle Right \<Rightarrow>
              [\<lparr>xc = b_width b / 2, yc = 0\<rparr>,
               \<lparr>xc = - (b_width b / 2), yc = - (b_height b / 2)\<rparr>,
               \<lparr>xc = - (b_width b / 2), yc = b_height b / 2\<rparr>])
   \<and> r_center (resolveBumper b t) =
       (case b_motion b of
          None \<Rightarrow> b_position b
        | Some m \<Rightarrow>
            (case axis m of
               AxisX \<Rightarrow>
                 \<lparr>xc = xc (b_position b)
                         + amplitude m * sin (t * speed m + (case phase m of None \<Rightarrow> 0 | Some p \<Rightarrow> p)),
                  yc = yc (b_position b)\<rparr>
             | AxisY \<Rightarrow>
                 \<lparr>xc = xc (b_position b),
                  yc = yc (b_position b)
                         + amplitude m * sin (t * speed m + (case phase m of None \<Rightarrow> 0 | Some p \<Rightarrow> p))\<rparr>))"
proof (intro conjI)
  have local: "baseVerts b =
         (case b_type b of
            Rect \<Rightarrow>
              [\<lparr>xc = - (b_width b / 2), yc = - (b_height b / 2)\<rparr>,
               \<lparr>xc = b_width b / 2, yc = - (b_height b / 2)\<rparr>,
               \<lparr>xc = b_width b / 2, yc = b_height b / 2\<rparr>,
               \<lparr>xc = - (b_width b / 2), yc = b_height b / 2\<rparr>]
          | Triangle Up \<Rightarrow>
              [\<lparr>xc = 0, yc = - (b_height b / 2)\<rparr>,
               \<lparr>xc = b_width b / 2, yc = b_height b / 2\<rparr>,
               \<lparr>xc = - (b_width b / 2), yc = b_height b / 2\<rparr>]
          | Triangle Down \<Rightarrow>
              [\<lparr>xc = 0, yc = b_height b / 2\<rparr>,
               \<lparr>xc = - (b_width b / 2), yc = - (b_height b / 2)\<rparr>,
               \<lparr>xc = b_width b / 2, yc = - (b_height b / 2)\<rparr>]
          | Triangle Left \<Rightarrow>
              [\<lparr>xc = - (b_width b / 2), yc = 0\<rparr>,
               \<lparr>xc = b_width b / 2, yc = - (b_height b / 2)\<rparr>,
               \<lparr>xc = b_width b / 2, yc = b_height b / 2\<rparr>]
          | Triangle Right \<Rightarrow>
              [\<lparr>xc = b_width b / 2, yc = 0\<rparr>,
               \<lparr>xc = - (b_width b / 2), yc = - (b_height b / 2)\<rparr>,
               \<lparr>xc = - (b_width b / 2), yc = b_height b / 2\<rparr>])"
    by (simp add: baseVerts_def rectVertices_def triangleVertices_def Let_def
        split: BumperType.splits TriangleOrientation.splits)
  have verts: "r_vertices (resolveBumper b t) =
     map (\<lambda>p.
            \<lparr>xc = xc p * cos ((case b_rotation b of None \<Rightarrow> 0 | Some r \<Rightarrow> r) * pi / 180)
                   - yc p * sin ((case b_rotation b of None \<Rightarrow> 0 | Some r \<Rightarrow> r) * pi / 180)
                   + xc (r_center (resolveBumper b t)),
             yc = xc p * sin ((case b_rotation b of None \<Rightarrow> 0 | Some r \<Rightarrow> r) * pi / 180)
                   + yc p * cos ((case b_rotation b of None \<Rightarrow> 0 | Some r \<Rightarrow> r) * pi / 180)
                   + yc (r_center (resolveBumper b t))\<rparr>)
         (baseVerts b)"
    by (cases "b_rotation b")
       (auto simp: resolveBumper_def Let_def rotatePoint_def toRadians_def add_def)
  show "r_vertices (resolveBumper b t) =
     map (\<lambda>p.
            \<lparr>xc = xc p * cos ((case b_rotation b of None \<Rightarrow> 0 | Some r \<Rightarrow> r) * pi / 180)
                   - yc p * sin ((case b_rotation b of None \<Rightarrow> 0 | Some r \<Rightarrow> r) * pi / 180)
                   + xc (r_center (resolveBumper b t)),
             yc = xc p * sin ((case b_rotation b of None \<Rightarrow> 0 | Some r \<Rightarrow> r) * pi / 180)
                   + yc p * cos ((case b_rotation b of None \<Rightarrow> 0 | Some r \<Rightarrow> r) * pi / 180)
                   + yc (r_center (resolveBumper b t))\<rparr>)
         (case b_type b of
            Rect \<Rightarrow>
              [\<lparr>xc = - (b_width b / 2), yc = - (b_height b / 2)\<rparr>,
               \<lparr>xc = b_width b / 2, yc = - (b_height b / 2)\<rparr>,
               \<lparr>xc = b_width b / 2, yc = b_height b / 2\<rparr>,
               \<lparr>xc = - (b_width b / 2), yc = b_height b / 2\<rparr>]
          | Triangle Up \<Rightarrow>
              [\<lparr>xc = 0, yc = - (b_height b / 2)\<rparr>,
               \<lparr>xc = b_width b / 2, yc = b_height b / 2\<rparr>,
               \<lparr>xc = - (b_width b / 2), yc = b_height b / 2\<rparr>]
          | Triangle Down \<Rightarrow>
              [\<lparr>xc = 0, yc = b_height b / 2\<rparr>,
               \<lparr>xc = - (b_width b / 2), yc = - (b_height b / 2)\<rparr>,
               \<lparr>xc = b_width b / 2, yc = - (b_height b / 2)\<rparr>]
          | Triangle Left \<Rightarrow>
              [\<lparr>xc = - (b_width b / 2), yc = 0\<rparr>,
               \<lparr>xc = b_width b / 2, yc = - (b_height b / 2)\<rparr>,
               \<lparr>xc = b_width b / 2, yc = b_height b / 2\<rparr>]
          | Triangle Right \<Rightarrow>
              [\<lparr>xc = b_width b / 2, yc = 0\<rparr>,
               \<lparr>xc = - (b_width b / 2), yc = - (b_height b / 2)\<rparr>,
               \<lparr>xc = - (b_width b / 2), yc = b_height b / 2\<rparr>])"
    unfolding verts local ..
  show "r_center (resolveBumper b t) =
       (case b_motion b of
          None \<Rightarrow> b_position b
        | Some m \<Rightarrow>
            (case axis m of
               AxisX \<Rightarrow>
                 \<lparr>xc = xc (b_position b)
                         + amplitude m * sin (t * speed m + (case phase m of None \<Rightarrow> 0 | Some p \<Rightarrow> p)),
                  yc = yc (b_position b)\<rparr>
             | AxisY \<Rightarrow>
                 \<lparr>xc = xc (b_position b),
                  yc = yc (b_position b)
                         + amplitude m * sin (t * speed m + (case phase m of None \<Rightarrow> 0 | Some p \<Rightarrow> p))\<rparr>))"
    by (auto simp: resolveBumper_def applyMotion_def Let_def
        split: option.splits Axis.splits)
qed

section \<open>Event de-duplication\<close>

text \<open>
  The accumulator invariant: \<open>ids\<close> is the set of the ids of the recorded events, and
  no two recorded events share an id.
\<close>

lemma accInv_append: "accInv acc \<Longrightarrow> accInv (appendCollision acc e)"
  by (auto simp: accInv_def appendCollision_def)

lemma accInv_wall: "accInv acc \<Longrightarrow> accInv (snd (resolveWallCollisions st s acc))"
  by (auto simp: resolveWallCollisions_def resolveWallCollisions_x_def
      resolveWallCollisions_y_def intro!: accInv_append split: prod.splits if_splits)

lemma accInv_bounce: "accInv acc \<Longrightarrow> accInv (snd (bounce b st acc s hit))"
  by (auto simp: bounce_def Let_def intro!: accInv_append split: prod.splits)

lemma accInv_bumper: "accInv acc \<Longrightarrow> accInv (snd (resolveBumperCollision b st acc s))"
  by (auto simp: resolveBumperCollision_def Let_def intro!: accInv_bounce split: option.splits)

lemma accInv_loop: "accInv acc \<Longrightarrow> accInv (snd (bumperLoop bs st acc s))"
proof (induction bs arbitrary: st acc)
  case Nil
  then show ?case by simp
next
  case (Cons b bs)
  obtain st1 acc1 where r: "resolveBumperCollision b st acc s = (st1, acc1)"
    by (cases "resolveBumperCollision b st acc s")
  with accInv_bumper [OF Cons.prems, of b st s] have "accInv acc1" by simp
  from Cons.IH [OF this] r show ?case by simp
qed

text \<open>
  Claim C8: the event list returned by \<open>stepBall\<close> holds at most one event per id (no
  two events share an id, for bumper ids and wall ids alike), and the first contact
  recorded for an id wins: \<open>appendCollision\<close> keeps every event already recorded, in
  place, and can only add the new one behind them.
\<close>

theorem stepBall_events_distinct:
  "distinct (map c_id (collisions (stepBall st bs dt s)))
   \<and> take (length (events acc)) (events (appendCollision acc e)) = events acc
   \<and> events (appendCollision (appendCollision acc e) (e'\<lparr>c_id := c_id e\<rparr>)) =
       events (appendCollision acc e)"
proof (intro conjI)
  have e: "accInv \<lparr>events = [], ids = {}\<rparr>" by (simp add: accInv_def)
  obtain st1 acc1 where
    w: "resolveWallCollisions (stepBall_cap (stepBall_friction st dt s) s) s
          \<lparr>events = [], ids = {}\<rparr> = (st1, acc1)"
    by (cases "resolveWallCollisions (stepBall_cap (stepBall_friction st dt s) s) s
          \<lparr>events = [], ids = {}\<rparr>")
  with accInv_wall [OF e, of "stepBall_cap (stepBall_friction st dt s) s" s]
  have a1: "accInv acc1" by simp
  obtain st2 acc2 where l: "bumperLoop bs st1 acc1 s = (st2, acc2)"
    by (cases "bumperLoop bs st1 acc1 s")
  with accInv_loop [OF a1, of bs st1 s] have "accInv acc2" by simp
  then show "distinct (map c_id (collisions (stepBall st bs dt s)))"
    using w l by (simp add: stepBall_def accInv_def)
  show "take (length (events acc)) (events (appendCollision acc e)) = events acc"
    by (simp add: appendCollision_def)
  show "events (appendCollision (appendCollision acc e) (e'\<lparr>c_id := c_id e\<rparr>)) =
       events (appendCollision acc e)"
    by (simp add: appendCollision_def)
qed

section \<open>Concrete scenario: a bounce off the left wall\<close>

text \<open>
  Claim C2: a ball at \<open>(0,0)\<close> with velocity \<open>(-100,0)\<close>, the settings
  \<open>worldWidth = 360\<close>, \<open>worldHeight = 640\<close>, \<open>ballRadius = 14\<close>, \<open>damping = 0.88\<close>,
  \<open>friction = 0.18\<close>, one \<open>stepBall\<close> call with \<open>dt = 1/60\<close>: the returned
  \<open>position.x\<close> is 14 and the returned \<open>velocity.x\<close> is positive, of magnitude
  \<open>100 * (1 - 0.18/60) * 0.88\<close>. The scenario names no obstacles and no speed cap: it
  is taken with the empty obstacle list and with any cap that the speed after
  friction, 99.7, does not exceed (the game's own 900 among them).
\<close>

theorem stepBall_left_wall_scenario:
  assumes "997 / 10 \<le> m"
  shows "xc (position (state (stepBall leftBall [] (1 / 60) (getPhysicsSettings\<lparr>maxSpeed := m\<rparr>)))) = 14
     \<and> 0 < xc (velocity (state (stepBall leftBall [] (1 / 60) (getPhysicsSettings\<lparr>maxSpeed := m\<rparr>))))
     \<and> \<bar>xc (velocity (state (stepBall leftBall [] (1 / 60) (getPhysicsSettings\<lparr>maxSpeed := m\<rparr>))))\<bar>
         = 100 * (1 - (18 / 100) / 60) * (88 / 100)"
  using assms
  by (simp add: stepBall_def leftBall_def stepBall_friction_def getPhysicsSettings_def
      stepBall_cap_def resolveWallCollisions_def resolveWallCollisions_x_def
      resolveWallCollisions_y_def length_vec_x_axis regular_def add_def scale_def Let_def appendCollision_def)

theorem stepBall_left_wall_scenario_witness:
  "997 / 10 \<le> (900::real)
   \<and> getPhysicsSettings\<lparr>maxSpeed := 900\<rparr> = getPhysicsSettings
   \<and> xc (position (state (stepBall leftBall [] (1 / 60) getPhysicsSettings))) = 14
   \<and> xc (velocity (state (stepBall leftBall [] (1 / 60) getPhysicsSettings))) = 10967 / 125"
proof -
  have g: "getPhysicsSettings\<lparr>maxSpeed := 900\<rparr> = getPhysicsSettings"
    by (simp add: getPhysicsSettings_def)
  show ?thesis
    using stepBall_left_wall_scenario [of 900] unfolding g by auto
qed

section \<open>Wall containment\<close>

lemma wall_fst_position:
  "position (fst (resolveWallCollisions st s acc)) =
     \<lparr>xc = (if xc (position st) - ballRadius s < 0 \<and> xc (velocity st) < 0 then ballRadius s
            else if xc (position st) + ballRadius s > worldWidth s \<and> xc (velocity st) > 0
                 then worldWidth s - ballRadius s else xc (position st)),
      yc = (if yc (position st) - ballRadius s < 0 \<and> yc (velocity st) < 0 then ballRadius s
            else if yc (position st) + ballRadius s > worldHeight s \<and> yc (velocity st) > 0
                 then worldHeight s - ballRadius s else yc (position st))\<rparr>"
  by (cases "position st")
     (simp add: resolveWallCollisions_def resolveWallCollisions_x_def
       resolveWallCollisions_y_def split: prod.splits)

text \<open>
  With a friction multiplier above 0 and a positive cap, the velocity the walls see
  is a positive multiple of the velocity that moved the ball.
\<close>

lemma cap_friction_multiple:
  assumes "friction s * dt < 1" "0 < maxSpeed s"
  shows "\<exists>c > 0. velocity (stepBall_cap (stepBall_friction st dt s) s) = scale (velocity st) c"
proof (cases "length_vec (velocity (stepBall_friction st dt s)) > maxSpeed s")
  case True
  let ?spd = "length_vec (velocity (stepBall_friction st dt s))"
  from True assms have pos: "0 < ?spd" by linarith
  have "velocity (stepBall_cap (stepBall_friction st dt s) s) =
          scale (velocity st) ((1 - friction s * dt) * (maxSpeed s / ?spd))"
    using True by (simp add: stepBall_cap_def Let_def scale_def)
  moreover have "0 < (1 - friction s * dt) * (maxSpeed s / ?spd)"
    using assms pos by simp
  ultimately show ?thesis by blast
next
  case False
  then have "velocity (stepBall_cap (stepBall_friction st dt s) s) =
          scale (velocity st) (1 - friction s * dt)"
    by (simp add: stepBall_cap_def Let_def)
  with assms show ?thesis by (intro exI [of _ "1 - friction s * dt"]) simp
qed

lemma step_inArena:
  assumes box: "inArena s (position st)" and dt: "0 < dt"
    and fr: "friction s * dt < 1" and ms: "0 < maxSpeed s"
  shows "inArena s (position (state (stepBall st [] dt s)))"
proof -
  obtain c where c: "0 < c"
    and v: "velocity (stepBall_cap (stepBall_friction st dt s) s) = scale (velocity st) c"
    using cap_friction_multiple [OF fr ms] by blast
  have sx: "xc (velocity st) * dt < 0 \<Longrightarrow> xc (velocity st) * c < 0"
    using dt c by (simp add: mult_less_0_iff)
  have sx': "0 < xc (velocity st) * dt \<Longrightarrow> 0 < xc (velocity st) * c"
    using dt c by (simp add: zero_less_mult_iff)
  have sy: "yc (velocity st) * dt < 0 \<Longrightarrow> yc (velocity st) * c < 0"
    using dt c by (simp add: mult_less_0_iff)
  have sy': "0 < yc (velocity st) * dt \<Longrightarrow> 0 < yc (velocity st) * c"
    using dt c by (simp add: zero_less_mult_iff)
  show ?thesis
    unfolding stepBall_nil wall_fst_position v
    using box sx sx' sy sy'
    by (auto simp: inArena_def add_def scale_def)
qed

lemma step_edgeBall:
  "stepBall edgeBall [] 10 getPhysicsSettings =
     \<lparr>state = \<lparr>position = \<lparr>xc = - 986, yc = 320\<rparr>, velocity = \<lparr>xc = 80, yc = 0\<rparr>\<rparr>,
      collisions = []\<rparr>"
  by (simp add: stepBall_def edgeBall_def getPhysicsSettings_def stepBall_friction_def
      stepBall_cap_def resolveWallCollisions_def resolveWallCollisions_x_def
      resolveWallCollisions_y_def length_vec_x_axis regular_def add_def scale_def Let_def)

lemma step_edgeBall_no_speed:
  "stepBall edgeBall [] (1 / 60) (getPhysicsSettings\<lparr>maxSpeed := 0\<rparr>) =
     \<lparr>state = \<lparr>position = \<lparr>xc = 37 / 3, yc = 320\<rparr>, velocity = \<lparr>xc = 0, yc = 0\<rparr>\<rparr>,
      collisions = []\<rparr>"
  by (simp add: stepBall_def edgeBall_def getPhysicsSettings_def stepBall_friction_def
      stepBall_cap_def resolveWallCollisions_def resolveWallCollisions_x_def
      resolveWallCollisions_y_def length_vec_x_axis regular_def add_def scale_def Let_def)

text \<open>
  Claim C3, as stated, fails. The walls correct a ball only while its velocity, after
  friction and cap, still points into the wall. With the game's settings and
  \<open>dt = 10\<close> the friction multiplier is \<open>1 - 1.8 = -0.8\<close>: the ball that started on the
  boundary of the box at \<open>x = 14\<close> moving left is moved to \<open>x = -986\<close>, its velocity is
  turned to the right, and no wall test fires. With \<open>maxSpeed = 0\<close> and \<open>dt = 1/60\<close> the
  cap sets the velocity to 0 and the ball is left at \<open>x = 37/3 < 14\<close>.
\<close>

theorem wall_containment_counterexample:
  "inArena getPhysicsSettings (position edgeBall)
   \<and> velocity edgeBall \<noteq> \<lparr>xc = 0, yc = 0\<rparr>
   \<and> \<not> inArena getPhysicsSettings (position (state (stepBall edgeBall [] 10 getPhysicsSettings)))
   \<and> \<not> inArena (getPhysicsSettings\<lparr>maxSpeed := 0\<rparr>)
         (position (state (stepBall edgeBall [] (1 / 60) (getPhysicsSettings\<lparr>maxSpeed := 0\<rparr>))))"
  unfolding step_edgeBall step_edgeBall_no_speed
  by (simp add: inArena_def getPhysicsSettings_def edgeBall_def)

lemma stepMany_inArena:
  assumes "inArena s (position st)"
    and "\<forall>dt \<in> set dts. 0 < dt \<and> friction s * dt < 1"
    and "0 < maxSpeed s"
  shows "\<forall>k \<le> length dts. inArena s (position (stepMany st (take k dts) s))"
  using assms
proof (induction dts arbitrary: st)
  case Nil
  then show ?case by simp
next
  case (Cons dt dts)
  have 1: "inArena s (position (state (stepBall st [] dt s)))"
    using Cons.prems by (intro step_inArena) auto
  have IH: "\<forall>k \<le> length dts.
      inArena s (position (stepMany (state (stepBall st [] dt s)) (take k dts) s))"
    using Cons.IH [OF 1] Cons.prems by simp
  show ?case
  proof (intro allI impI)
    fix k
    assume "k \<le> length (dt # dts)"
    then show "inArena s (position (stepMany st (take k (dt # dts)) s))"
      using IH Cons.prems(1) by (cases k) auto
  qed
qed

text \<open>
  Claim C3, amended: with an empty obstacle list, \<open>0 < damping \<le> 1\<close>,
  \<open>ballRadius \<ge> 10^-50\<close> and \<open>maxSpeed \<ge> 10^-50\<close>, for every ball state whose center
  starts within
  \<open>[ballRadius, worldWidth - ballRadius] x [ballRadius, worldHeight - ballRadius]\<close> and
  whose velocity components are at most \<open>10^50\<close> in magnitude, and every sequence of
  \<open>stepBall\<close> calls whose time steps satisfy \<open>0 < dt \<le> 10^50\<close> and
  \<open>0 \<le> friction * dt \<le> 0.99\<close>, the returned center is within the same box after each
  step. The bound on the friction multiplier and the positive cap are what the walls
  need: they correct a ball only while its velocity still points into the wall. The
  bounds on the magnitudes keep the doubles of the source away from overflow and
  underflow, where the cap multiplies the velocity by \<open>maxSpeed / Infinity = 0\<close> or a
  product vanishes and the same wall test fails.
\<close>

theorem wall_containment:
  assumes "inArena s (position st)"
    and "1 / 10 ^ 50 \<le> ballRadius s"
    and "1 / 10 ^ 50 \<le> maxSpeed s"
    and "0 < damping s" and "damping s \<le> 1"
    and "\<bar>xc (velocity st)\<bar> \<le> 10 ^ 50" and "\<bar>yc (velocity st)\<bar> \<le> 10 ^ 50"
    and "\<forall>dt \<in> set dts. 0 < dt \<and> dt \<le> 10 ^ 50
           \<and> 0 \<le> friction s * dt \<and> friction s * dt \<le> 99 / 100"
  shows "\<forall>k \<le> length dts. inArena s (position (stepMany st (take k dts) s))"
proof -
  have dts: "\<forall>dt \<in> set dts. 0 < dt \<and> friction s * dt < 1"
    using assms(8) by fastforce
  have "(0::real) < 1 / 10 ^ 50" by simp
  with assms(3) have ms: "0 < maxSpeed s" by linarith
  show ?thesis by (rule stepMany_inArena [OF assms(1) dts ms])
qed

theorem wall_containment_witness:
  "inArena getPhysicsSettings (position edgeBall)
   \<and> 1 / 10 ^ 50 \<le> ballRadius getPhysicsSettings
   \<and> 1 / 10 ^ 50 \<le> maxSpeed getPhysicsSettings
   \<and> 0 < damping getPhysicsSettings \<and> damping getPhysicsSettings \<le> 1
   \<and> \<bar>xc (velocity edgeBall)\<bar> \<le> 10 ^ 50 \<and> \<bar>yc (velocity edgeBall)\<bar> \<le> 10 ^ 50
   \<and> 0 < (1 / 60 :: real) \<and> (1 / 60 :: real) \<le> 10 ^ 50
   \<and> 0 \<le> friction getPhysicsSettings * (1 / 60)
   \<and> friction getPhysicsSettings * (1 / 60) \<le> 99 / 100
   \<and> inArena getPhysicsSettings (position (stepMany edgeBall [1 / 60, 1 / 60] getPhysicsSettings))"
proof -
  have a: "inArena getPhysicsSettings (position edgeBall)"
    by (simp add: inArena_def getPhysicsSettings_def edgeBall_def)
  have r: "1 / 10 ^ 50 \<le> ballRadius getPhysicsSettings"
    and m: "1 / 10 ^ 50 \<le> maxSpeed getPhysicsSettings"
    and d: "0 < damping getPhysicsSettings" "damping getPhysicsSettings \<le> 1"
    by (simp_all add: getPhysicsSettings_def)
  have v: "\<bar>xc (velocity edgeBall)\<bar> \<le> 10 ^ 50" "\<bar>yc (velocity edgeBall)\<bar> \<le> 10 ^ 50"
    by (simp_all add: edgeBall_def)
  have t: "0 < (1 / 60 :: real)" "(1 / 60 :: real) \<le> 10 ^ 50"
    "0 \<le> friction getPhysicsSettings * (1 / 60)"
    "friction getPhysicsSettings * (1 / 60) \<le> 99 / 100"
    by (simp_all add: getPhysicsSettings_def)
  have b: "\<forall>dt \<in> set [1 / 60, 1 / 60 :: real]. 0 < dt \<and> dt \<le> 10 ^ 50
             \<and> 0 \<le> friction getPhysicsSettings * dt \<and> friction getPhysicsSettings * dt \<le> 99 / 100"
    using t by simp
  have "length [1 / 60, 1 / 60 :: real] \<le> length [1 / 60, 1 / 60 :: real]" by simp
  with wall_containment [OF a r m d v b]
  have "inArena getPhysicsSettings
          (position (stepMany edgeBall (take (length [1 / 60, 1 / 60 :: real]) [1 / 60, 1 / 60])
             getPhysicsSettings))"
    by blast
  then have "inArena getPhysicsSettings
          (position (stepMany edgeBall [1 / 60, 1 / 60] getPhysicsSettings))"
    by simp
  with a r m d v t show ?thesis by blast
qed

section \<open>Friction\<close>

lemma wall_no_event:
  assumes "events (snd (resolveWallCollisions st s \<lparr>events = [], ids = {}\<rparr>)) = []"
  shows "fst (resolveWallCollisions st s \<lparr>events = [], ids = {}\<rparr>) = st"
  using assms
  by (auto simp: resolveWallCollisions_def resolveWallCollisions_x_def
      resolveWallCollisions_y_def appendCollision_def split: if_splits prod.splits)

lemma stepBall_nil_collisions:
  "collisions (stepBall st [] dt s) =
     events (snd (resolveWallCollisions (stepBall_cap (stepBall_friction st dt s) s) s
            \<lparr>events = [], ids = {}\<rparr>))"
  by (simp add: stepBall_def Let_def split: prod.splits)

text \<open>
  Claim C6: the friction update of \<open>stepBall\<close> multiplies the velocity by exactly
  \<open>1 - friction * dt\<close>, with no floor at zero. When \<open>friction * dt > 1\<close> the velocity
  after friction is \<open>v * (1 - friction * dt)\<close>, each component has the sign opposite
  to the input's (a zero component stays zero), and the result differs from what a
  multiplier \<open>max 0 (1 - friction * dt)\<close> would give for every nonzero \<open>v\<close>. When
  neither the cap nor a wall then changes it, this is the velocity \<open>stepBall\<close> returns.
\<close>

theorem friction_not_clamped:
  assumes "friction s * dt > 1"
  shows "velocity (stepBall_friction st dt s) = scale (velocity st) (1 - friction s * dt)
   \<and> sgn (xc (velocity (stepBall_friction st dt s))) = - sgn (xc (velocity st))
   \<and> sgn (yc (velocity (stepBall_friction st dt s))) = - sgn (yc (velocity st))
   \<and> (velocity st \<noteq> \<lparr>xc = 0, yc = 0\<rparr> \<longrightarrow>
        velocity (stepBall_friction st dt s) \<noteq> scale (velocity st) (max 0 (1 - friction s * dt)))
   \<and> (length_vec (scale (velocity st) (1 - friction s * dt)) \<le> maxSpeed s
        \<and> collisions (stepBall st [] dt s) = [] \<longrightarrow>
        velocity (state (stepBall st [] dt s)) = scale (velocity st) (1 - friction s * dt))"
proof (intro conjI impI)
  from assms have neg: "1 - friction s * dt < 0" by simp
  show "velocity (stepBall_friction st dt s) = scale (velocity st) (1 - friction s * dt)"
    by simp
  show "sgn (xc (velocity (stepBall_friction st dt s))) = - sgn (xc (velocity st))"
    using neg by (simp add: scale_def sgn_mult)
  show "sgn (yc (velocity (stepBall_friction st dt s))) = - sgn (yc (velocity st))"
    using neg by (simp add: scale_def sgn_mult)
  show "velocity (stepBall_friction st dt s) \<noteq> scale (velocity st) (max 0 (1 - friction s * dt))"
    if "velocity st \<noteq> \<lparr>xc = 0, yc = 0\<rparr>"
    using that neg by (cases "velocity st") (auto simp: scale_def max_def)
  show "velocity (state (stepBall st [] dt s)) = scale (velocity st) (1 - friction s * dt)"
    if h: "length_vec (scale (velocity st) (1 - friction s * dt)) \<le> maxSpeed s
        \<and> collisions (stepBall st [] dt s) = []"
  proof -
    from h have nocap: "stepBall_cap (stepBall_friction st dt s) s = stepBall_friction st dt s"
      by (simp add: stepBall_cap_def Let_def)
    from h have "events (snd (resolveWallCollisions (stepBall_cap (stepBall_friction st dt s) s) s
            \<lparr>events = [], ids = {}\<rparr>)) = []"
      by (simp add: stepBall_nil_collisions)
    from wall_no_event [OF this] show ?thesis
      by (simp add: stepBall_nil nocap)
  qed
qed

theorem friction_not_clamped_witness:
  "friction getPhysicsSettings * 10 > 1
   \<and> velocity edgeBall = \<lparr>xc = - 100, yc = 0\<rparr>
   \<and> velocity (stepBall_friction edgeBall 10 getPhysicsSettings) = \<lparr>xc = 80, yc = 0\<rparr>
   \<and> velocity (state (stepBall edgeBall [] 10 getPhysicsSettings)) = \<lparr>xc = 80, yc = 0\<rparr>"
proof -
  have a: "friction getPhysicsSettings * 10 > 1" by (simp add: getPhysicsSettings_def)
  have v: "velocity edgeBall = \<lparr>xc = - 100, yc = 0\<rparr>" by (simp add: edgeBall_def)
  have f: "scale (velocity edgeBall) (1 - friction getPhysicsSettings * 10) = \<lparr>xc = 80, yc = 0\<rparr>"
    by (simp add: v scale_def getPhysicsSettings_def)
  from friction_not_clamped [OF a, of edgeBall]
  have "velocity (stepBall_friction edgeBall 10 getPhysicsSettings) =
          scale (velocity edgeBall) (1 - friction getPhysicsSettings * 10)"
    by blast
  with a v f show ?thesis by (simp add: step_edgeBall)
qed

section \<open>Vector length at the edge of the double range\<close>























section \<open>Speed cap and energy: a bounce off an underflowed normal\<close>












lemma magnitude_x_axis [simp]: "magnitude \<lparr>xc = a, yc = 0\<rparr> = \<bar>a\<bar>"
  by (simp add: magnitude_def)



section \<open>Degenerate geometry\<close>

lemma segLenSq_floor: "1 / 10000 \<le> segLenSq e"
  by (simp add: segLenSq_def Let_def)

lemma closest_zero_length:
  "edge_to e = edge_from e \<Longrightarrow> closestPointOnSegment p e = edge_from e"
  by (cases "edge_from e") (simp add: closestPointOnSegment_def sub_def dot_def scale_def add_def Let_def)

lemma vertexCheck_zero: "vertexCheck st s (position st) = None"
  by (simp add: vertexCheck_def Let_def sub_def dot_def)










section \<open>Collision response in exact arithmetic\<close>

text \<open>
  A vector whose components are regular is normalised to a unit vector.
\<close>

lemma normalize_unit:
  assumes "regular (xc a)" and "regular (yc a)" and "length_vec a \<noteq> 0"
  shows "dot (normalize_vec a) (normalize_vec a) = 1"
proof -
  have l: "length_vec a = magnitude a" using assms(1,2) by (rule length_vec_regular)
  have sq: "magnitude a * magnitude a = xc a * xc a + yc a * yc a"
    by (simp add: magnitude_def)
  have "dot (normalize_vec a) (normalize_vec a)
          = (xc a * xc a + yc a * yc a) / (magnitude a * magnitude a)"
    using assms(3) by (simp add: normalize_vec_def dot_def Let_def l add_divide_distrib)
  also have "\<dots> = 1" using assms(3) by (simp add: sq [symmetric] l)
  finally show ?thesis .
qed

lemma magnitude_nonneg [simp]: "0 \<le> magnitude a"
  by (simp add: magnitude_def)






























section \<open>Energy along the collision normal\<close>








section \<open>stepBall does not write to its input\<close>

lemma extends_length:
  "extends h0 h \<Longrightarrow> length (vecs h0) \<le> length (vecs h) \<and> length (balls h0) \<le> length (balls h)"
  unfolding extends_def
  by (metis length_take min.cobounded1 min.commute)

lemma wall_x_store:
  assumes "extends h0 h" "freshBall h0 h b"
  shows "extends h0 (fst (resolveWallCollisions_x_store h b s acc))
       \<and> freshBall h0 (fst (resolveWallCollisions_x_store h b s acc)) b
       \<and> readBall (fst (resolveWallCollisions_x_store h b s acc)) b
           = fst (resolveWallCollisions_x (readBall h b) s acc)
       \<and> snd (resolveWallCollisions_x_store h b s acc)
           = snd (resolveWallCollisions_x (readBall h b) s acc)"
  using assms
  by (simp add: resolveWallCollisions_x_store_def resolveWallCollisions_x_def Let_def
      extends_def freshBall_def readBall_def writeX_def)

lemma wall_y_store:
  assumes "extends h0 h" "freshBall h0 h b"
  shows "extends h0 (fst (resolveWallCollisions_y_store h b s acc))
       \<and> freshBall h0 (fst (resolveWallCollisions_y_store h b s acc)) b
       \<and> readBall (fst (resolveWallCollisions_y_store h b s acc)) b
           = fst (resolveWallCollisions_y (readBall h b) s acc)
       \<and> snd (resolveWallCollisions_y_store h b s acc)
           = snd (resolveWallCollisions_y (readBall h b) s acc)"
  using assms
  by (simp add: resolveWallCollisions_y_store_def resolveWallCollisions_y_def Let_def
      extends_def freshBall_def readBall_def writeY_def)

lemma wall_store:
  assumes "extends h0 h" "freshBall h0 h b"
  shows "extends h0 (fst (resolveWallCollisions_store h b s acc))
       \<and> freshBall h0 (fst (resolveWallCollisions_store h b s acc)) b
       \<and> readBall (fst (resolveWallCollisions_store h b s acc)) b
           = fst (resolveWallCollisions (readBall h b) s acc)
       \<and> snd (resolveWallCollisions_store h b s acc)
           = snd (resolveWallCollisions (readBall h b) s acc)"
proof -
  obtain h1 acc1 where x: "resolveWallCollisions_x_store h b s acc = (h1, acc1)"
    by (cases "resolveWallCollisions_x_store h b s acc")
  from wall_x_store [OF assms, of s acc] x
  have 1: "extends h0 h1" "freshBall h0 h1 b"
    and r1: "resolveWallCollisions_x (readBall h b) s acc = (readBall h1 b, acc1)"
    by (simp_all add: prod_eq_iff)
  from wall_y_store [OF 1, of s acc1] show ?thesis
    by (simp add: resolveWallCollisions_store_def resolveWallCollisions_def x r1)
qed

lemma bounce_store_sim:
  assumes "extends h0 h" "freshBall h0 h b"
  shows "extends h0 (fst (bounce_store bumper h b acc s hit))
       \<and> freshBall h0 (fst (bounce_store bumper h b acc s hit)) b
       \<and> readBall (fst (bounce_store bumper h b acc s hit)) b
           = fst (bounce bumper (readBall h b) acc s hit)
       \<and> snd (bounce_store bumper h b acc s hit)
           = snd (bounce bumper (readBall h b) acc s hit)"
proof -
  obtain n d p where hit: "hit = (n, d, p)" by (cases hit)
  from assms have len: "length (vecs h0) \<le> length (vecs h)" "length (balls h0) \<le> length (balls h)"
    using extends_length by blast+
  show ?thesis
    using assms len
    by (simp add: hit bounce_store_def bounce_def Let_def allocVec_def setPosition_def
        setVelocity_def extends_def freshBall_def readBall_def nth_append)
qed

lemma bumper_store_sim:
  assumes "extends h0 h" "freshBall h0 h b"
  shows "extends h0 (fst (resolveBumperCollision_store bumper h b acc s))
       \<and> freshBall h0 (fst (resolveBumperCollision_store bumper h b acc s)) b
       \<and> readBall (fst (resolveBumperCollision_store bumper h b acc s)) b
           = fst (resolveBumperCollision bumper (readBall h b) acc s)
       \<and> snd (resolveBumperCollision_store bumper h b acc s)
           = snd (resolveBumperCollision bumper (readBall h b) acc s)"
  using assms bounce_store_sim [OF assms]
  by (simp add: resolveBumperCollision_store_def resolveBumperCollision_def Let_def
      split: option.splits)

lemma loop_store_sim:
  assumes "extends h0 h" "freshBall h0 h b"
  shows "extends h0 (fst (bumperLoop_store bs h b acc s))
       \<and> readBall (fst (bumperLoop_store bs h b acc s)) b
           = fst (bumperLoop bs (readBall h b) acc s)
       \<and> snd (bumperLoop_store bs h b acc s) = snd (bumperLoop bs (readBall h b) acc s)"
  using assms
proof (induction bs arbitrary: h acc)
  case Nil
  then show ?case by simp
next
  case (Cons bumper bs)
  obtain h1 acc1 where r: "resolveBumperCollision_store bumper h b acc s = (h1, acc1)"
    by (cases "resolveBumperCollision_store bumper h b acc s")
  from bumper_store_sim [OF Cons.prems, of bumper acc s] r
  have 1: "extends h0 h1" "freshBall h0 h1 b"
    and r1: "resolveBumperCollision bumper (readBall h b) acc s = (readBall h1 b, acc1)"
    by (simp_all add: prod_eq_iff)
  from Cons.IH [OF 1, of acc1] show ?case by (simp add: r r1)
qed

lemma cap_store_sim:
  assumes "extends h0 h" "freshBall h0 h b"
  shows "extends h0 (stepBall_cap_store h b s)
       \<and> freshBall h0 (stepBall_cap_store h b s) b
       \<and> readBall (stepBall_cap_store h b s) b = stepBall_cap (readBall h b) s"
proof -
  from assms have len: "length (vecs h0) \<le> length (vecs h)" "length (balls h0) \<le> length (balls h)"
    using extends_length by blast+
  show ?thesis
    using assms len
    by (simp add: stepBall_cap_store_def stepBall_cap_def Let_def allocVec_def
        setVelocity_def extends_def freshBall_def readBall_def nth_append)
qed

lemma friction_store_sim:
  assumes "validBall h st"
  shows "extends h (fst (stepBall_friction_store h st dt s))
       \<and> freshBall h (fst (stepBall_friction_store h st dt s)) (snd (stepBall_friction_store h st dt s))
       \<and> readBall (fst (stepBall_friction_store h st dt s)) (snd (stepBall_friction_store h st dt s))
           = stepBall_friction (readBall h st) dt s"
  using assms
  by (simp add: stepBall_friction_store_def stepBall_friction_def Let_def allocVec_def allocBall_def
      setVelocity_def extends_def freshBall_def readBall_def validBall_def nth_append)

text \<open>
  Claim C10: \<open>stepBall\<close> never mutates its input. Run on a store, the call leaves
  every object that existed before it unchanged at its address, so the input state
  reads the same position and velocity afterwards; the state it returns is a
  different, newly allocated object, and that object and the returned events are
  what the functional \<open>stepBall\<close> computes from the input's value.
\<close>

theorem stepBall_store_frame:
  assumes "validBall h st"
  shows "extends h (fst (stepBall_store h st bs dt s))
       \<and> readBall (fst (stepBall_store h st bs dt s)) st = readBall h st
       \<and> fst (snd (stepBall_store h st bs dt s)) \<noteq> st
       \<and> \<lparr>state = readBall (fst (stepBall_store h st bs dt s)) (fst (snd (stepBall_store h st bs dt s))),
           collisions = snd (snd (stepBall_store h st bs dt s))\<rparr>
          = stepBall (readBall h st) bs dt s"
proof -
  obtain h1 ns where f: "stepBall_friction_store h st dt s = (h1, ns)"
    by (cases "stepBall_friction_store h st dt s")
  from friction_store_sim [OF assms, of dt s] f
  have 1: "extends h h1" "freshBall h h1 ns"
    and r1: "readBall h1 ns = stepBall_friction (readBall h st) dt s"
    by simp_all
  let ?h2 = "stepBall_cap_store h1 ns s"
  from cap_store_sim [OF 1, of s]
  have 2: "extends h ?h2" "freshBall h ?h2 ns"
    and r2: "readBall ?h2 ns = stepBall_cap (stepBall_friction (readBall h st) dt s) s"
    by (simp_all add: r1)
  obtain h3 acc1 where w: "resolveWallCollisions_store ?h2 ns s \<lparr>events = [], ids = {}\<rparr> = (h3, acc1)"
    by (cases "resolveWallCollisions_store ?h2 ns s \<lparr>events = [], ids = {}\<rparr>")
  from wall_store [OF 2, of s "\<lparr>events = [], ids = {}\<rparr>"] w
  have 3: "extends h h3" "freshBall h h3 ns"
    and r3: "resolveWallCollisions (stepBall_cap (stepBall_friction (readBall h st) dt s) s) s
               \<lparr>events = [], ids = {}\<rparr> = (readBall h3 ns, acc1)"
    by (simp_all add: r2 prod_eq_iff)
  obtain h4 acc2 where l: "bumperLoop_store bs h3 ns acc1 s = (h4, acc2)"
    by (cases "bumperLoop_store bs h3 ns acc1 s")
  from loop_store_sim [OF 3, of bs acc1 s] l
  have 4: "extends h h4"
    and r4: "bumperLoop bs (readBall h3 ns) acc1 s = (readBall h4 ns, acc2)"
    by (simp_all add: prod_eq_iff)
  have res: "stepBall_store h st bs dt s = (h4, ns, events acc2)"
    by (simp add: stepBall_store_def f w l Let_def)
  have pure: "stepBall (readBall h st) bs dt s = \<lparr>state = readBall h4 ns, collisions = events acc2\<rparr>"
    by (simp add: stepBall_def Let_def r3 r4)
  have ne: "ns \<noteq> st" using 1(2) assms by (auto simp: freshBall_def validBall_def)
  have same: "readBall h4 st = readBall h st"
  proof -
    from 4 have v: "take (length (vecs h)) (vecs h4) = vecs h"
      and b: "take (length (balls h)) (balls h4) = balls h"
      by (simp_all add: extends_def)
    from assms have i: "st < length (balls h)" "positionRef (balls h ! st) < length (vecs h)"
      "velocityRef (balls h ! st) < length (vecs h)"
      by (simp_all add: validBall_def)
    have bb: "balls h4 ! st = balls h ! st"
      using i(1) b by (metis nth_take)
    have "vecs h4 ! a = vecs h ! a" if "a < length (vecs h)" for a
      using that v by (metis nth_take)
    with i bb show ?thesis by (simp add: readBall_def)
  qed
  show ?thesis by (simp add: res pure 4 same ne)
qed

lemma exampleStore_step:
  "stepBall_store exampleStore 0 [] (1 / 60) getPhysicsSettings =
     (\<lparr>vecs = [\<lparr>xc = 0, yc = 0\<rparr>, \<lparr>xc = - 100, yc = 0\<rparr>,
               \<lparr>xc = 14, yc = 0\<rparr>, \<lparr>xc = - 100, yc = 0\<rparr>, \<lparr>xc = 10967 / 125, yc = 0\<rparr>],
       balls = [\<lparr>positionRef = 0, velocityRef = 1\<rparr>, \<lparr>positionRef = 2, velocityRef = 4\<rparr>]\<rparr>,
      1,
      [\<lparr>c_id = ''wall-left'', c_kind = Wall, c_normal = \<lparr>xc = 1, yc = 0\<rparr>,
        c_point = \<lparr>xc = 0, yc = 0\<rparr>\<rparr>])"
  by (simp add: stepBall_store_def stepBall_friction_store_def stepBall_cap_store_def
      resolveWallCollisions_store_def resolveWallCollisions_x_store_def
      resolveWallCollisions_y_store_def allocVec_def allocBall_def setVelocity_def
      writeX_def readBall_def exampleStore_def getPhysicsSettings_def appendCollision_def
      length_vec_x_axis regular_def add_def scale_def Let_def)

theorem stepBall_store_frame_witness:
  "validBall exampleStore 0
   \<and> readBall exampleStore 0 = leftBall
   \<and> fst (snd (stepBall_store exampleStore 0 [] (1 / 60) getPhysicsSettings)) = 1
   \<and> readBall (fst (stepBall_store exampleStore 0 [] (1 / 60) getPhysicsSettings)) 1
       = \<lparr>position = \<lparr>xc = 14, yc = 0\<rparr>, velocity = \<lparr>xc = 10967 / 125, yc = 0\<rparr>\<rparr>
   \<and> readBall (fst (stepBall_store exampleStore 0 [] (1 / 60) getPhysicsSettings)) 0 = leftBall"
proof -
  have v: "validBall exampleStore 0" by (simp add: validBall_def exampleStore_def)
  have r: "readBall exampleStore 0 = leftBall"
    by (simp add: readBall_def exampleStore_def leftBall_def)
  have n: "readBall (fst (stepBall_store exampleStore 0 [] (1 / 60) getPhysicsSettings)) 1
       = \<lparr>position = \<lparr>xc = 14, yc = 0\<rparr>, velocity = \<lparr>xc = 10967 / 125, yc = 0\<rparr>\<rparr>"
    unfolding exampleStore_step by (simp add: readBall_def)
  from stepBall_store_frame [OF v, of "[]" "1 / 60" getPhysicsSettings]
  have "readBall (fst (stepBall_store exampleStore 0 [] (1 / 60) getPhysicsSettings)) 0
          = readBall exampleStore 0"
    by blast
  with v r n show ?thesis by (simp add: exampleStore_step)
qed

end
